theory Spec2Isabelle
  imports Complex_Main
begin

section \<open>Pair trading notebook: values\<close>

text \<open>
  The notebook \<^verbatim>\<open>03_pair_trading_johansen.ipynb\<close> computes on pandas columns of
  float64 and int64. A float64 is modelled as a value of \<open>fl\<close>: a finite number, carried
  as an exact real (rounding and overflow are left out), one of the two infinities, or
  not-a-number, which pandas also uses for a missing entry. Zero is unsigned: \<open>Fin 0\<close>
  stands for \<^verbatim>\<open>+0.0\<close>, the only zero the notebook ever divides by (a square root).
\<close>

datatype fl = Fin real | PInf | NInf | NaN

fun isnan :: "fl \<Rightarrow> bool" where
  "isnan NaN = True"
| "isnan _ = False"

fun fneg :: "fl \<Rightarrow> fl" where
  "fneg (Fin a) = Fin (- a)"
| "fneg PInf = NInf"
| "fneg NInf = PInf"
| "fneg NaN = NaN"

fun fadd :: "fl \<Rightarrow> fl \<Rightarrow> fl" where
  "fadd (Fin a) (Fin b) = Fin (a + b)"
| "fadd NaN _ = NaN"
| "fadd _ NaN = NaN"
| "fadd PInf NInf = NaN"
| "fadd NInf PInf = NaN"
| "fadd PInf _ = PInf"
| "fadd _ PInf = PInf"
| "fadd NInf _ = NInf"
| "fadd _ NInf = NInf"

definition fsub :: "fl \<Rightarrow> fl \<Rightarrow> fl" where
  "fsub x y = fadd x (fneg y)"

text \<open>The sign of a value that is not NaN, and the infinity (or NaN) of a given sign.\<close>

fun fsgn :: "fl \<Rightarrow> real" where
  "fsgn (Fin a) = sgn a"
| "fsgn PInf = 1"
| "fsgn NInf = - 1"
| "fsgn NaN = 0"

definition inf_of_sign :: "real \<Rightarrow> fl" where
  "inf_of_sign s = (if 0 < s then PInf else if s < 0 then NInf else NaN)"

fun fmul :: "fl \<Rightarrow> fl \<Rightarrow> fl" where
  "fmul (Fin a) (Fin b) = Fin (a * b)"
| "fmul NaN _ = NaN"
| "fmul _ NaN = NaN"
| "fmul x y = inf_of_sign (fsgn x * fsgn y)"

text \<open>
  Division as numpy does it on float64 arrays: no exception, \<^verbatim>\<open>0/0\<close> is NaN and
  \<^verbatim>\<open>x/0\<close> is an infinity of the sign of \<open>x\<close>.
\<close>

fun fdiv :: "fl \<Rightarrow> fl \<Rightarrow> fl" where
  "fdiv (Fin a) (Fin b) = (if b = 0 then inf_of_sign a else Fin (a / b))"
| "fdiv NaN _ = NaN"
| "fdiv _ NaN = NaN"
| "fdiv (Fin a) _ = Fin 0"
| "fdiv x (Fin b) = inf_of_sign (fsgn x * (if 0 \<le> b then 1 else - 1))"
| "fdiv _ _ = NaN"

fun fsqrt :: "fl \<Rightarrow> fl" where
  "fsqrt (Fin a) = (if a < 0 then NaN else Fin (sqrt a))"
| "fsqrt PInf = PInf"
| "fsqrt NInf = NaN"
| "fsqrt NaN = NaN"

fun fabs :: "fl \<Rightarrow> fl" where
  "fabs (Fin a) = Fin \<bar>a\<bar>"
| "fabs PInf = PInf"
| "fabs NInf = PInf"
| "fabs NaN = NaN"

text \<open>The comparison \<^verbatim>\<open><\<close>: false whenever an operand is NaN.\<close>

fun flt :: "fl \<Rightarrow> fl \<Rightarrow> bool" where
  "flt (Fin a) (Fin b) = (a < b)"
| "flt NaN _ = False"
| "flt _ NaN = False"
| "flt NInf NInf = False"
| "flt NInf _ = True"
| "flt _ NInf = False"
| "flt PInf _ = False"
| "flt _ PInf = True"

definition fgt :: "fl \<Rightarrow> fl \<Rightarrow> bool" where
  "fgt x y = flt y x"

section \<open>Cell 4: trading signals\<close>

text \<open>
  \<^verbatim>\<open>
  df['long_spread']  = (df['zscore'] < -entry_z).astype(int)
  df['short_spread'] = (df['zscore'] >  entry_z).astype(int)
  \<close>
\<close>

definition long_spread :: "real \<Rightarrow> fl list \<Rightarrow> int list" where
  "long_spread entry_z zscore = map (\<lambda>z. if flt z (Fin (- entry_z)) then 1 else 0) zscore"

definition short_spread :: "real \<Rightarrow> fl list \<Rightarrow> int list" where
  "short_spread entry_z zscore = map (\<lambda>z. if fgt z (Fin entry_z) then 1 else 0) zscore"

text \<open>
  The body of the loop, at index \<open>i\<close>, on the state \<open>(pos, position column)\<close>:
  \<^verbatim>\<open>
      if pos == 0:
          if df['long_spread'].iloc[i]: pos = +1
          elif df['short_spread'].iloc[i]: pos = -1
      elif pos == +1 and abs(df['zscore'].iloc[i]) < exit_z:
          pos = 0
      elif pos == -1 and abs(df['zscore'].iloc[i]) < exit_z:
          pos = 0
      df.at[df.index[i], 'position'] = pos
  \<close>
\<close>

definition next_pos :: "real \<Rightarrow> int \<Rightarrow> int \<Rightarrow> fl \<Rightarrow> int \<Rightarrow> int" where
  "next_pos exit_z l s z pos =
     (if pos = 0 then (if l \<noteq> 0 then 1 else if s \<noteq> 0 then - 1 else pos)
      else if pos = 1 \<and> flt (fabs z) (Fin exit_z) then 0
      else if pos = - 1 \<and> flt (fabs z) (Fin exit_z) then 0
      else pos)"

definition loop_body ::
  "real \<Rightarrow> fl list \<Rightarrow> int list \<Rightarrow> int list \<Rightarrow> nat \<Rightarrow> int \<times> int list \<Rightarrow> int \<times> int list" where
  "loop_body exit_z zscore long short i st =
     (let pos = next_pos exit_z (long ! i) (short ! i) (zscore ! i) (fst st)
      in (pos, (snd st)[i := pos]))"

text \<open>
  \<^verbatim>\<open>
  df['position'] = 0
  pos = 0
  for i in range(len(df)): ...
  \<close>
  Every index of the loop is below the length of the three columns, which are columns of
  one table.
\<close>

definition signal_generator :: "real \<Rightarrow> real \<Rightarrow> fl list \<Rightarrow> int list" where
  "signal_generator entry_z exit_z zscore =
     snd (fold (loop_body exit_z zscore (long_spread entry_z zscore) (short_spread entry_z zscore))
            [0..<length zscore] (0, replicate (length zscore) 0))"

text \<open>The same scan written as a recursion over the rows, carrying the position.\<close>

fun scan_pos :: "real \<Rightarrow> real \<Rightarrow> int \<Rightarrow> fl list \<Rightarrow> int list" where
  "scan_pos entry_z exit_z pos [] = []"
| "scan_pos entry_z exit_z pos (z # zs) =
     (let pos' = next_pos exit_z (if flt z (Fin (- entry_z)) then 1 else 0)
                   (if fgt z (Fin entry_z) then 1 else 0) z pos
      in pos' # scan_pos entry_z exit_z pos' zs)"

text \<open>
  The Signal Generator as the specification words it: three states, one transition per
  time step from the current state and the current z-score, starting in \<open>FLAT\<close>; the
  output at a step is the state after that step.
\<close>

datatype sig_state = FLAT | LONG_SPREAD | SHORT_SPREAD

fun state_code :: "sig_state \<Rightarrow> int" where
  "state_code FLAT = 0"
| "state_code LONG_SPREAD = 1"
| "state_code SHORT_SPREAD = - 1"

fun spec_step :: "real \<Rightarrow> real \<Rightarrow> sig_state \<Rightarrow> fl \<Rightarrow> sig_state" where
  "spec_step entry_threshold exit_threshold FLAT z =
     (if flt z (Fin (- entry_threshold)) then LONG_SPREAD
      else if fgt z (Fin entry_threshold) then SHORT_SPREAD
      else FLAT)"
| "spec_step entry_threshold exit_threshold st z =
     (if flt (fabs z) (Fin exit_threshold) then FLAT else st)"

text \<open>
  The state reached by the left fold after the first \<open>k\<close> z-scores; the position the
  specification gives for step \<open>t\<close> is the code of the state after \<open>t + 1\<close> of them.
\<close>

definition spec_state_after :: "real \<Rightarrow> real \<Rightarrow> fl list \<Rightarrow> nat \<Rightarrow> sig_state" where
  "spec_state_after entry_threshold exit_threshold zscore k =
     foldl (spec_step entry_threshold exit_threshold) FLAT (take k zscore)"

section \<open>Cell 3: spread and z-score\<close>

text \<open>
  pandas reductions skip NaN entries. \<^verbatim>\<open>Series.sum\<close> replaces them by 0 and adds up;
  \<^verbatim>\<open>Series.mean\<close> divides that sum by the number of entries that are not NaN, and is
  NaN when there is none; \<^verbatim>\<open>Series.std\<close> (one delta degree of freedom) is the square
  root of the sum of the squared distances to the mean over that number less one, and is
  NaN when the number is at most one.
\<close>

definition np_sum :: "fl list \<Rightarrow> fl" where
  "np_sum xs = foldl fadd (Fin 0) xs"

definition fill0 :: "fl list \<Rightarrow> fl list" where
  "fill0 xs = map (\<lambda>x. if isnan x then Fin 0 else x) xs"

definition notna_count :: "fl list \<Rightarrow> nat" where
  "notna_count xs = length (filter (\<lambda>x. \<not> isnan x) xs)"

definition pd_sum :: "fl list \<Rightarrow> fl" where
  "pd_sum xs = np_sum (fill0 xs)"

definition pd_mean :: "fl list \<Rightarrow> fl" where
  "pd_mean xs =
     (let count = notna_count xs
      in if 0 < count then fdiv (pd_sum xs) (Fin (real count)) else NaN)"

definition pd_var :: "fl list \<Rightarrow> fl" where
  "pd_var xs =
     (let count = notna_count xs
      in if count \<le> 1 then NaN
         else let avg = fdiv (pd_sum xs) (Fin (real count));
                  sqr = map (\<lambda>x. if isnan x then Fin 0
                                  else (let d = fsub avg x in fmul d d)) xs
              in fdiv (np_sum sqr) (Fin (real (count - 1))))"

definition pd_std :: "fl list \<Rightarrow> fl" where
  "pd_std xs = fsqrt (pd_var xs)"

text \<open>
  \<^verbatim>\<open>
  df['spread'] = evec[0] * df['S1'] + evec[1] * df['S2']
  df['zscore'] = (df['spread'] - df['spread'].mean()) / df['spread'].std()
  \<close>
\<close>

definition spread_series :: "fl \<Rightarrow> fl \<Rightarrow> fl list \<Rightarrow> fl list \<Rightarrow> fl list" where
  "spread_series evec0 evec1 S1 S2 = map2 (\<lambda>a b. fadd (fmul evec0 a) (fmul evec1 b)) S1 S2"

definition zscore_series :: "fl list \<Rightarrow> fl list" where
  "zscore_series spread = map (\<lambda>s. fdiv (fsub s (pd_mean spread)) (pd_std spread)) spread"

section \<open>Cell 5: profit and loss\<close>

text \<open>
  \<^verbatim>\<open>
  df['spread_diff'] = df['spread'].diff()
  df['pnl'] = df['position'].shift(1) * df['spread_diff']
  df['cum_pnl'] = df['pnl'].cumsum().fillna(0)
  \<close>
  \<^verbatim>\<open>diff\<close> and \<^verbatim>\<open>shift(1)\<close> leave NaN in the first row; the shift turns the integer
  column into floats. \<^verbatim>\<open>cumsum\<close> skips NaN: it accumulates with NaN read as 0 and puts
  NaN back in the rows that held one.
\<close>

definition pd_diff :: "fl list \<Rightarrow> fl list" where
  "pd_diff xs = map (\<lambda>t. if t = 0 then NaN else fsub (xs ! t) (xs ! (t - 1))) [0..<length xs]"

definition pd_shift1 :: "int list \<Rightarrow> fl list" where
  "pd_shift1 ps = map (\<lambda>t. if t = 0 then NaN else Fin (of_int (ps ! (t - 1)))) [0..<length ps]"

fun np_cumsum :: "fl \<Rightarrow> fl list \<Rightarrow> fl list" where
  "np_cumsum acc [] = []"
| "np_cumsum acc (x # xs) = fadd acc x # np_cumsum (fadd acc x) xs"

definition pd_cumsum :: "fl list \<Rightarrow> fl list" where
  "pd_cumsum xs = map2 (\<lambda>x r. if isnan x then NaN else r) xs (np_cumsum (Fin 0) (fill0 xs))"

definition pnl_series :: "int list \<Rightarrow> fl list \<Rightarrow> fl list" where
  "pnl_series position spread = map2 fmul (pd_shift1 position) (pd_diff spread)"

definition cum_pnl_series :: "int list \<Rightarrow> fl list \<Rightarrow> fl list" where
  "cum_pnl_series position spread = fill0 (pd_cumsum (pnl_series position spread))"

text \<open>
  The profit of step \<open>t\<close> as the specification words it, on real numbers:
  \<^verbatim>\<open>position[t-1] * (spread[t] - spread[t-1])\<close>.
\<close>

definition spec_pnl :: "int list \<Rightarrow> real list \<Rightarrow> nat \<Rightarrow> real" where
  "spec_pnl position xs t = of_int (position ! (t - 1)) * (xs ! t - xs ! (t - 1))"

text \<open>
  The sample mean and the unbiased sample variance of a list of reals: what
  \<open>pd_mean\<close> and \<open>pd_var\<close> compute on a column without NaN or infinities.
\<close>

definition mean_real :: "real list \<Rightarrow> real" where
  "mean_real xs = sum_list xs / real (length xs)"

definition var_real :: "real list \<Rightarrow> real" where
  "var_real xs = (\<Sum>x\<leftarrow>xs. (mean_real xs - x) * (mean_real xs - x)) / real (length xs - 1)"

section \<open>Cells 1 and 2: the synthetic price series\<close>

text \<open>
  numpy's global generator is a state of type \<open>'g\<close>, threaded through the calls. Two
  functions of numpy are parameters: \<open>seeded\<close>, the state that \<^verbatim>\<open>np.random.seed\<close>
  installs for a seed, and \<open>gauss\<close>, one standard normal variate and the state after it.
  \<^verbatim>\<open>np.random.seed(s)\<close> raises \<^verbatim>\<open>ValueError\<close> for an integer outside
  \<^verbatim>\<open>0 .. 2**32 - 1\<close> and otherwise replaces the state, whatever it was.
  \<^verbatim>\<open>np.random.normal(scale=s, size=n)\<close> raises \<^verbatim>\<open>ValueError\<close> for a negative scale
  or size and otherwise draws \<open>n\<close> variates, each scaled by \<open>s\<close>.
\<close>

datatype error = ValueError

fun draws :: "('g \<Rightarrow> real \<times> 'g) \<Rightarrow> nat \<Rightarrow> 'g \<Rightarrow> real list \<times> 'g" where
  "draws gauss 0 g = ([], g)"
| "draws gauss (Suc k) g =
     (case gauss g of (x, g1) \<Rightarrow>
        (case draws gauss k g1 of (xs, g2) \<Rightarrow> (x # xs, g2)))"

definition random_normal ::
  "('g \<Rightarrow> real \<times> 'g) \<Rightarrow> real \<Rightarrow> int \<Rightarrow> 'g \<Rightarrow> error + (real list \<times> 'g)" where
  "random_normal gauss scale n g =
     (if scale < 0 \<or> n < 0 then Inl ValueError
      else (case draws gauss (nat n) g of (xs, g') \<Rightarrow> Inr (map (\<lambda>x. scale * x) xs, g')))"

fun cumsum_real :: "real \<Rightarrow> real list \<Rightarrow> real list" where
  "cumsum_real acc [] = []"
| "cumsum_real acc (x # xs) = (acc + x) # cumsum_real (acc + x) xs"

text \<open>
  Cell 1, \<^verbatim>\<open>np.random.seed(42)\<close>, as a step on the generator state, and cell 2 with
  its constants (500, 100, 0.8, 1.0, 2.0) as parameters:
  \<^verbatim>\<open>
  eps1 = np.random.normal(scale=1.0, size=n)
  S1 = 100 + np.cumsum(eps1)
  eps2 = np.random.normal(scale=2.0, size=n)
  S2 = beta_true * S1 + eps2
  \<close>
\<close>

definition cell_seed :: "(nat \<Rightarrow> 'g) \<Rightarrow> int \<Rightarrow> 'g \<Rightarrow> error + 'g" where
  "cell_seed seeded seed g =
     (if seed < 0 \<or> 2 ^ 32 \<le> seed then Inl ValueError else Inr (seeded (nat seed)))"

definition cell_generate ::
  "('g \<Rightarrow> real \<times> 'g) \<Rightarrow> int \<Rightarrow> real \<Rightarrow> real \<Rightarrow> real \<Rightarrow> real \<Rightarrow> 'g
     \<Rightarrow> error + ((real list \<times> real list) \<times> 'g)" where
  "cell_generate gauss n offset beta scale1 scale2 g =
     (case random_normal gauss scale1 n g of
        Inl e \<Rightarrow> Inl e
      | Inr (eps1, g1) \<Rightarrow>
          (let S1 = map (\<lambda>c. offset + c) (cumsum_real 0 eps1)
           in case random_normal gauss scale2 n g1 of
                Inl e \<Rightarrow> Inl e
              | Inr (eps2, g2) \<Rightarrow>
                  Inr ((S1, map2 (\<lambda>s e. beta * s + e) S1 eps2), g2)))"

definition series_generator ::
  "(nat \<Rightarrow> 'g) \<Rightarrow> ('g \<Rightarrow> real \<times> 'g) \<Rightarrow> int \<Rightarrow> int \<Rightarrow> real \<Rightarrow> real \<Rightarrow> real \<Rightarrow> real \<Rightarrow> 'g
     \<Rightarrow> error + ((real list \<times> real list) \<times> 'g)" where
  "series_generator seeded gauss seed n offset beta scale1 scale2 g =
     (case cell_seed seeded seed g of
        Inl e \<Rightarrow> Inl e
      | Inr g0 \<Rightarrow> cell_generate gauss n offset beta scale1 scale2 g0)"

text \<open>
  A stand-in for numpy's generator, to run the cells on concrete inputs: the state is a
  counter, seeding sets it to the seed, and a draw returns the counter and increments it.
\<close>

definition counter_seeded :: "nat \<Rightarrow> nat" where
  "counter_seeded seed = seed"

definition counter_gauss :: "nat \<Rightarrow> real \<times> nat" where
  "counter_gauss g = (real g, Suc g)"

section \<open>The loop of cell 4 is a scan\<close>

lemma length_scan_pos: "length (scan_pos e x p zs) = length zs"
  by (induction zs arbitrary: p) (simp_all add: Let_def)

lemma scan_pos_nth:
  "k < length zs \<Longrightarrow>
   scan_pos e x p zs ! k =
     next_pos x (if flt (zs ! k) (Fin (- e)) then 1 else 0) (if fgt (zs ! k) (Fin e) then 1 else 0)
       (zs ! k) (if k = 0 then p else scan_pos e x p zs ! (k - 1))"
proof (induction zs arbitrary: p k)
  case Nil
  then show ?case by simp
next
  case (Cons z zs)
  show ?case
  proof (cases k)
    case 0
    then show ?thesis by (simp add: Let_def)
  next
    case (Suc j)
    with Cons.prems have j: "j < length zs" by simp
    show ?thesis using Cons.IH [OF j] Suc
      by (cases j) (simp_all add: Let_def)
  qed
qed

lemma fold_loop_body:
  assumes "k \<le> length zs"
  shows "fold (loop_body x zs (long_spread e zs) (short_spread e zs)) [0..<k]
           (0, replicate (length zs) 0) =
         (if k = 0 then 0 else scan_pos e x 0 zs ! (k - 1),
          take k (scan_pos e x 0 zs) @ replicate (length zs - k) 0)"
  using assms
proof (induction k)
  case 0
  then show ?case by simp
next
  case (Suc k)
  then have k: "k < length zs" by simp
  have ih: "fold (loop_body x zs (long_spread e zs) (short_spread e zs)) [0..<k]
           (0, replicate (length zs) 0) =
         (if k = 0 then 0 else scan_pos e x 0 zs ! (k - 1),
          take k (scan_pos e x 0 zs) @ replicate (length zs - k) 0)"
    using Suc by simp
  have nth: "next_pos x (long_spread e zs ! k) (short_spread e zs ! k) (zs ! k)
               (if k = 0 then 0 else scan_pos e x 0 zs ! (k - 1)) = scan_pos e x 0 zs ! k"
    using k scan_pos_nth [OF k, of e x 0] by (simp add: long_spread_def short_spread_def)
  have upd: "(take k (scan_pos e x 0 zs) @ replicate (length zs - k) 0)[k := scan_pos e x 0 zs ! k]
             = take (Suc k) (scan_pos e x 0 zs) @ replicate (length zs - Suc k) 0"
  proof -
    have "length zs - k = Suc (length zs - Suc k)" using k by simp
    then have "replicate (length zs - k) (0::int) = 0 # replicate (length zs - Suc k) 0"
      by simp
    then show ?thesis using k
      by (simp add: list_update_append length_scan_pos take_Suc_conv_app_nth)
  qed
  have "fold (loop_body x zs (long_spread e zs) (short_spread e zs)) [0..<Suc k]
           (0, replicate (length zs) 0) =
        loop_body x zs (long_spread e zs) (short_spread e zs) k
          (if k = 0 then 0 else scan_pos e x 0 zs ! (k - 1),
           take k (scan_pos e x 0 zs) @ replicate (length zs - k) 0)"
    by (simp only: upt_Suc_append [OF le0] fold_append fold.simps o_apply id_apply ih)
  also have "\<dots> = (scan_pos e x 0 zs ! k,
                    take (Suc k) (scan_pos e x 0 zs) @ replicate (length zs - Suc k) 0)"
    unfolding loop_body_def Let_def fst_conv snd_conv nth upd ..
  finally show ?case by simp
qed

lemma signal_generator_scan: "signal_generator e x zs = scan_pos e x 0 zs"
  using fold_loop_body [of "length zs" zs x e]
  by (simp add: signal_generator_def length_scan_pos)

lemma spec_step_next_pos:
  "state_code (spec_step e x st z) =
     next_pos x (if flt z (Fin (- e)) then 1 else 0) (if fgt z (Fin e) then 1 else 0) z
       (state_code st)"
  by (cases st) (simp_all add: next_pos_def)

lemma map_upt_Suc_shift: "map f [0..<Suc n] = f 0 # map (\<lambda>t. f (Suc t)) [0..<n]"
  by (simp only: map_upt_Suc)

lemma scan_pos_foldl:
  "scan_pos e x (state_code st) zs =
     map (\<lambda>t. state_code (foldl (spec_step e x) st (take (Suc t) zs))) [0..<length zs]"
proof (induction zs arbitrary: st)
  case Nil
  show ?case by simp
next
  case (Cons z zs)
  have "scan_pos e x (state_code st) (z # zs) =
          state_code (spec_step e x st z) # scan_pos e x (state_code (spec_step e x st z)) zs"
    by (simp add: Let_def spec_step_next_pos)
  also have "\<dots> = state_code (spec_step e x st z) #
      map (\<lambda>t. state_code (foldl (spec_step e x) (spec_step e x st z) (take (Suc t) zs)))
        [0..<length zs]"
    by (simp only: Cons.IH)
  also have "\<dots> = map (\<lambda>t. state_code (foldl (spec_step e x) st (take (Suc t) (z # zs))))
        [0..<length (z # zs)]"
    by (simp add: map_upt_Suc_shift del: upt_Suc)
  finally show ?case .
qed

text \<open>
  Claim C2. For every z-score column and thresholds, the position column written by the
  loop is the left fold of the specification's transition from \<open>FLAT\<close>: the position
  of step \<open>t\<close> is the code (0, +1, -1) of the state reached after the z-scores of the
  steps 0 to \<open>t\<close>.
\<close>

theorem signal_generator_is_fold:
  "signal_generator entry_threshold exit_threshold zscore =
     map (\<lambda>t. state_code (spec_state_after entry_threshold exit_threshold zscore (Suc t)))
       [0..<length zscore]"
  using scan_pos_foldl [of entry_threshold exit_threshold FLAT zscore]
  by (simp add: signal_generator_scan spec_state_after_def)

lemma next_pos_cases:
  "next_pos x l s z p = p \<or> (p = 0 \<and> next_pos x l s z p \<in> {1, - 1}) \<or>
     (p \<in> {1, - 1} \<and> next_pos x l s z p = 0)"
  by (simp add: next_pos_def)

lemma next_pos_exit0: "p \<noteq> 0 \<Longrightarrow> next_pos 0 l s z p = p"
  by (cases z) (simp_all add: next_pos_def)

lemma scan_pos_Suc:
  assumes "Suc k < length zs"
  shows "scan_pos e x p zs ! Suc k =
     next_pos x (if flt (zs ! Suc k) (Fin (- e)) then 1 else 0)
       (if fgt (zs ! Suc k) (Fin e) then 1 else 0) (zs ! Suc k) (scan_pos e x p zs ! k)"
  using scan_pos_nth [OF assms, of e x p] by simp

lemma scan_pos_range:
  "p \<in> {- 1, 0, 1} \<Longrightarrow> k < length zs \<Longrightarrow> scan_pos e x p zs ! k \<in> {- 1, 0, 1}"
proof (induction k)
  case 0
  then show ?case
    using scan_pos_nth [of 0 zs e x p]
      next_pos_cases [of x "if flt (zs ! 0) (Fin (- e)) then 1 else 0"
        "if fgt (zs ! 0) (Fin e) then 1 else 0" "zs ! 0" p]
    by auto
next
  case (Suc k)
  then have "scan_pos e x p zs ! k \<in> {- 1, 0, 1}" by simp
  then show ?case
    using scan_pos_Suc [OF Suc.prems(2), of e x p]
      next_pos_cases [of x "if flt (zs ! Suc k) (Fin (- e)) then 1 else 0"
        "if fgt (zs ! Suc k) (Fin e) then 1 else 0" "zs ! Suc k" "scan_pos e x p zs ! k"]
    by auto
qed

lemma scan_pos_no_flip:
  assumes "Suc k < length zs"
  shows "\<not> (scan_pos e x p zs ! k = 1 \<and> scan_pos e x p zs ! Suc k = - 1) \<and>
         \<not> (scan_pos e x p zs ! k = - 1 \<and> scan_pos e x p zs ! Suc k = 1)"
  using scan_pos_Suc [OF assms, of e x p]
    next_pos_cases [of x "if flt (zs ! Suc k) (Fin (- e)) then 1 else 0"
        "if fgt (zs ! Suc k) (Fin e) then 1 else 0" "zs ! Suc k" "scan_pos e x p zs ! k"]
  by auto

lemma scan_pos_flat_between:
  assumes "j < length zs" "i < j"
    and "scan_pos e x 0 zs ! i = a" "scan_pos e x 0 zs ! j = - a" "a = 1 \<or> a = - 1"
  shows "\<exists>k. i < k \<and> k < j \<and> scan_pos e x 0 zs ! k = 0"
  using assms(1,2,4)
proof (induction j)
  case 0
  then show ?case by simp
next
  case (Suc j)
  let ?P = "scan_pos e x 0 zs"
  have jl: "j < length zs" using Suc.prems by simp
  have rng: "?P ! j \<in> {- 1, 0, 1}" using scan_pos_range [OF _ jl, of 0 e x] by simp
  have nf: "\<not> (?P ! j = 1 \<and> ?P ! Suc j = - 1) \<and> \<not> (?P ! j = - 1 \<and> ?P ! Suc j = 1)"
    using scan_pos_no_flip [OF Suc.prems(1)] .
  have ne: "?P ! j \<noteq> a" using nf Suc.prems(3) assms(5) by auto
  then have ij: "i < j" using Suc.prems(2) assms(3) by (cases "i = j") auto
  show ?case
  proof (cases "?P ! j = 0")
    case True
    then show ?thesis using ij by auto
  next
    case False
    then have "?P ! j = - a" using rng ne assms(5) by auto
    from Suc.IH [OF jl ij this] obtain k where "i < k" "k < j" "?P ! k = 0" by blast
    then show ?thesis by (intro exI [of _ k]) simp
  qed
qed

lemma scan_pos_exit0_stays:
  assumes "j < length zs" "i \<le> j" "scan_pos e 0 p zs ! i \<noteq> 0"
  shows "scan_pos e 0 p zs ! j = scan_pos e 0 p zs ! i"
  using assms(1,2)
proof (induction j)
  case 0
  then show ?case by simp
next
  case (Suc j)
  show ?case
  proof (cases "i = Suc j")
    case True
    then show ?thesis by simp
  next
    case False
    then have ij: "i \<le> j" using Suc.prems by simp
    have jl: "j < length zs" using Suc.prems by simp
    have eq: "scan_pos e 0 p zs ! j = scan_pos e 0 p zs ! i" using Suc.IH [OF jl ij] .
    show ?thesis
      using scan_pos_Suc [OF Suc.prems(1), of e 0 p] next_pos_exit0 assms(3) eq by simp
  qed
qed

lemma abs_lt_zero_never: "\<not> flt (fabs z) (Fin 0)"
  by (cases z) simp_all

text \<open>
  Claim C3. With the exit threshold 0.0 the exit test \<^verbatim>\<open>abs(z) < exit_z\<close> is false
  for every z-score (finite, infinite or NaN), and a position that is +1 or -1 at step
  \<open>i\<close> has that same value at every later step \<open>j\<close>.
\<close>

theorem exit_zero_position_latches:
  assumes "j < length zscore" and "i \<le> j"
    and "signal_generator entry_z 0 zscore ! i = 1 \<or> signal_generator entry_z 0 zscore ! i = - 1"
  shows "\<not> flt (fabs (zscore ! j)) (Fin 0) \<and>
         signal_generator entry_z 0 zscore ! j = signal_generator entry_z 0 zscore ! i"
proof -
  have "scan_pos entry_z 0 0 zscore ! i \<noteq> 0"
    using assms(3) by (auto simp: signal_generator_scan)
  from scan_pos_exit0_stays [OF assms(1,2) this] show ?thesis
    by (simp add: signal_generator_scan abs_lt_zero_never)
qed

theorem exit_zero_position_latches_witness:
  "2 < length [Fin 2, Fin 0, Fin (- 3)] \<and> (0::nat) \<le> 2 \<and>
   signal_generator 1 0 [Fin 2, Fin 0, Fin (- 3)] ! 0 = - 1 \<and>
   signal_generator 1 0 [Fin 2, Fin 0, Fin (- 3)] ! 2 = - 1"
proof -
  have h1: "2 < length [Fin 2, Fin 0, Fin (- 3)]" by simp
  have h2: "(0::nat) \<le> 2" by simp
  have p0: "signal_generator 1 0 [Fin 2, Fin 0, Fin (- 3)] ! 0 = - 1"
    by (simp add: signal_generator_scan next_pos_def fgt_def Let_def)
  then have h3: "signal_generator 1 0 [Fin 2, Fin 0, Fin (- 3)] ! 0 = 1 \<or>
                 signal_generator 1 0 [Fin 2, Fin 0, Fin (- 3)] ! 0 = - 1" by simp
  from exit_zero_position_latches [OF h1 h2 h3] p0 h1 h2 show ?thesis by simp
qed

text \<open>
  Claim C4. Between two consecutive steps the position never goes from +1 to -1 or
  from -1 to +1; and whenever the positions of two steps \<open>i < j\<close> have opposite signs,
  some step strictly between them has position 0.
\<close>

theorem no_direct_flip:
  "(Suc t < length zscore \<longrightarrow>
      \<not> (signal_generator entry_z exit_z zscore ! t = 1 \<and>
         signal_generator entry_z exit_z zscore ! Suc t = - 1) \<and>
      \<not> (signal_generator entry_z exit_z zscore ! t = - 1 \<and>
         signal_generator entry_z exit_z zscore ! Suc t = 1)) \<and>
   (i < j \<and> j < length zscore \<and>
    (signal_generator entry_z exit_z zscore ! i = 1 \<and>
       signal_generator entry_z exit_z zscore ! j = - 1 \<or>
     signal_generator entry_z exit_z zscore ! i = - 1 \<and>
       signal_generator entry_z exit_z zscore ! j = 1) \<longrightarrow>
      (\<exists>k. i < k \<and> k < j \<and> signal_generator entry_z exit_z zscore ! k = 0))"
proof (intro conjI impI)
  assume "Suc t < length zscore"
  from scan_pos_no_flip [OF this, of entry_z exit_z 0]
  show "\<not> (signal_generator entry_z exit_z zscore ! t = 1 \<and>
         signal_generator entry_z exit_z zscore ! Suc t = - 1)"
    and "\<not> (signal_generator entry_z exit_z zscore ! t = - 1 \<and>
         signal_generator entry_z exit_z zscore ! Suc t = 1)"
    by (simp_all add: signal_generator_scan)
next
  let ?P = "scan_pos entry_z exit_z 0 zscore"
  assume a: "i < j \<and> j < length zscore \<and>
    (signal_generator entry_z exit_z zscore ! i = 1 \<and>
       signal_generator entry_z exit_z zscore ! j = - 1 \<or>
     signal_generator entry_z exit_z zscore ! i = - 1 \<and>
       signal_generator entry_z exit_z zscore ! j = 1)"
  then have ij: "i < j" and jl: "j < length zscore" by simp_all
  from a consider "?P ! i = 1" "?P ! j = - 1" | "?P ! i = - 1" "?P ! j = 1"
    by (auto simp: signal_generator_scan)
  then have "\<exists>k. i < k \<and> k < j \<and> ?P ! k = 0"
  proof cases
    case 1
    then show ?thesis
      using scan_pos_flat_between [OF jl ij, of entry_z exit_z 1] by simp
  next
    case 2
    then show ?thesis
      using scan_pos_flat_between [OF jl ij, of entry_z exit_z "- 1"] by simp
  qed
  then show "\<exists>k. i < k \<and> k < j \<and> signal_generator entry_z exit_z zscore ! k = 0"
    by (simp add: signal_generator_scan)
qed

theorem no_direct_flip_witness:
  "signal_generator 1 1 [Fin 2, Fin (1 / 2), Fin (- 2)] = [- 1, 0, 1] \<and>
   (\<exists>k. 0 < k \<and> k < 2 \<and> signal_generator 1 1 [Fin 2, Fin (1 / 2), Fin (- 2)] ! k = 0)"
proof -
  have p: "signal_generator 1 1 [Fin 2, Fin (1 / 2), Fin (- 2)] = [- 1, 0, 1]"
    by (simp add: signal_generator_scan next_pos_def fgt_def Let_def)
  have h: "(0::nat) < 2 \<and> 2 < length [Fin 2, Fin (1 / 2), Fin (- 2)] \<and>
    (signal_generator 1 1 [Fin 2, Fin (1 / 2), Fin (- 2)] ! 0 = 1 \<and>
       signal_generator 1 1 [Fin 2, Fin (1 / 2), Fin (- 2)] ! 2 = - 1 \<or>
     signal_generator 1 1 [Fin 2, Fin (1 / 2), Fin (- 2)] ! 0 = - 1 \<and>
       signal_generator 1 1 [Fin 2, Fin (1 / 2), Fin (- 2)] ! 2 = 1)"
    by (simp add: p)
  from no_direct_flip [of 0 "[Fin 2, Fin (1 / 2), Fin (- 2)]" 1 1 0 2] h p
  show ?thesis by blast
qed

text \<open>
  Claim C5. On the z-scores 1.5, 0.5, -1.5, -0.2, 0.1 with entry threshold 1.0 and exit
  threshold 0.0 the positions are -1 at all five steps.
\<close>

theorem signal_generator_example:
  "signal_generator 1.0 0.0 [Fin 1.5, Fin 0.5, Fin (- 1.5), Fin (- 0.2), Fin 0.1] =
     [- 1, - 1, - 1, - 1, - 1]"
  by (simp add: signal_generator_scan next_pos_def fgt_def Let_def)

section \<open>Profit and loss\<close>

lemma length_pnl_series:
  "length (pnl_series position spread) = min (length position) (length spread)"
  by (simp add: pnl_series_def pd_shift1_def pd_diff_def)

lemma pnl_series_nth:
  assumes "t < length position" "t < length spread"
  shows "pnl_series position spread ! t =
     (if t = 0 then NaN
      else fmul (Fin (of_int (position ! (t - 1)))) (fsub (spread ! t) (spread ! (t - 1))))"
  using assms by (simp add: pnl_series_def pd_shift1_def pd_diff_def)

lemma pnl_series_finite:
  assumes "length position = length xs" "xs \<noteq> []"
  shows "pnl_series position (map Fin xs) =
           NaN # map (\<lambda>t. Fin (spec_pnl position xs (Suc t))) [0..<length xs - 1]"
proof (rule nth_equalityI)
  show "length (pnl_series position (map Fin xs)) =
        length (NaN # map (\<lambda>t. Fin (spec_pnl position xs (Suc t))) [0..<length xs - 1])"
    using assms by (cases xs) (simp_all add: length_pnl_series)
next
  fix t assume "t < length (pnl_series position (map Fin xs))"
  then have t: "t < length xs" "t < length position" using assms by (simp_all add: length_pnl_series)
  show "pnl_series position (map Fin xs) ! t =
        (NaN # map (\<lambda>t. Fin (spec_pnl position xs (Suc t))) [0..<length xs - 1]) ! t"
  proof (cases t)
    case 0
    then show ?thesis using t by (simp add: pnl_series_nth)
  next
    case (Suc j)
    then have "j < length xs - 1" using t by simp
    then show ?thesis using t Suc by (simp add: pnl_series_nth fsub_def spec_pnl_def)
  qed
qed

lemma np_cumsum_Fin: "np_cumsum (Fin a) (map Fin rs) = map Fin (cumsum_real a rs)"
  by (induction rs arbitrary: a) simp_all

lemma length_cumsum_real: "length (cumsum_real a rs) = length rs"
  by (induction rs arbitrary: a) simp_all

lemma cumsum_real_nth: "t < length rs \<Longrightarrow> cumsum_real a rs ! t = a + sum_list (take (Suc t) rs)"
proof (induction rs arbitrary: a t)
  case Nil
  then show ?case by simp
next
  case (Cons r rs)
  then show ?case by (cases t) (simp_all add: add.assoc)
qed

lemma foldl_fadd_Fin: "foldl fadd (Fin a) (map Fin rs) = Fin (a + sum_list rs)"
  by (induction rs arbitrary: a) (simp_all add: add.assoc)

lemma np_sum_Fin: "np_sum (map Fin rs) = Fin (sum_list rs)"
  by (simp add: np_sum_def foldl_fadd_Fin)

lemma fill0_Fin: "fill0 (map Fin rs) = map Fin rs"
  by (simp add: fill0_def)

lemma fill0_Cons: "fill0 (x # xs) = (if isnan x then Fin 0 else x) # fill0 xs"
  by (simp add: fill0_def)

lemma pd_cumsum_pnl_shape:
  "fill0 (pd_cumsum (NaN # map Fin rs)) = Fin 0 # map Fin (cumsum_real 0 rs)"
proof -
  have "map2 (\<lambda>x r. if isnan x then NaN else r) (map Fin rs) (map Fin (cumsum_real 0 rs)) =
        map Fin (cumsum_real 0 rs)"
    by (rule nth_equalityI) (simp_all add: length_cumsum_real)
  then show ?thesis
    by (simp add: pd_cumsum_def fill0_Cons fill0_Fin np_cumsum_Fin)
qed

lemma pd_sum_pnl_shape: "pd_sum (NaN # map Fin rs) = Fin (sum_list rs)"
  by (simp add: pd_sum_def np_sum_def fill0_Cons fill0_Fin foldl_fadd_Fin)

lemma sum_list_map_upt: "sum_list (map f [0..<n]) = (\<Sum>k = 0..<n. f k)"
  by (simp add: sum_list_sum_nth interv_sum_list_conv_sum_set_nat)

lemma sum_list_shifted:
  "sum_list (map (\<lambda>t. f (Suc t)) [0..<n]) = (\<Sum>k = 1..n. f k)"
proof -
  have "sum_list (map (\<lambda>t. f (Suc t)) [0..<n]) = (\<Sum>k = 0..<n. f (Suc k))"
    by (rule sum_list_map_upt)
  also have "\<dots> = (\<Sum>k = Suc 0..<Suc n. f k)"
    by (rule sum.shift_bounds_Suc_ivl [symmetric])
  also have "{Suc 0..<Suc n} = {1..n}" by auto
  finally show ?thesis .
qed

text \<open>
  Claim C1, as amended. For every integer position column and every spread column of
  floats, of the same length \<open>N \<ge> 1\<close>, the column \<^verbatim>\<open>pnl\<close> has \<open>N\<close> rows, every
  row \<open>t \<ge> 1\<close> holds \<^verbatim>\<open>position[t-1] * (spread[t] - spread[t-1])\<close>, the product and
  the difference being those of floats, and the first row is NaN (missing), not 0.
\<close>

theorem pnl_lagged_first_missing:
  assumes "length position = length spread" and "1 \<le> length spread"
  shows "length (pnl_series position spread) = length spread \<and>
         pnl_series position spread ! 0 = NaN \<and>
         (\<forall>t. 1 \<le> t \<and> t < length spread \<longrightarrow>
            pnl_series position spread ! t =
              fmul (Fin (of_int (position ! (t - 1)))) (fsub (spread ! t) (spread ! (t - 1))))"
proof -
  have len: "length (pnl_series position spread) = length spread"
    using assms(1) by (simp add: length_pnl_series)
  have row: "pnl_series position spread ! t =
      (if t = 0 then NaN
       else fmul (Fin (of_int (position ! (t - 1)))) (fsub (spread ! t) (spread ! (t - 1))))"
    if "t < length spread" for t
    using that assms(1) by (intro pnl_series_nth) simp_all
  have "0 < length spread" using assms(2) by (cases spread) simp_all
  from row [OF this] have first: "pnl_series position spread ! 0 = NaN" by simp
  have "pnl_series position spread ! t =
      fmul (Fin (of_int (position ! (t - 1)))) (fsub (spread ! t) (spread ! (t - 1)))"
    if t1: "1 \<le> t" and t2: "t < length spread" for t
    using row [OF t2] t1 by simp
  with len first show ?thesis by blast
qed

theorem pnl_lagged_first_missing_witness:
  "length [1, 1 :: int] = length [Fin 5, Fin 7] \<and> 1 \<le> length [Fin 5, Fin 7] \<and>
   pnl_series [1, 1] [Fin 5, Fin 7] ! 0 = NaN \<and>
   pnl_series [1, 1] [Fin 5, Fin 7] ! 1 = Fin 2"
proof -
  have h1: "length [1, 1 :: int] = length [Fin 5, Fin 7]" by simp
  have h2: "1 \<le> length [Fin 5, Fin 7]" by simp
  have v: "fmul (Fin (of_int ([1, 1] ! (1 - 1)))) (fsub ([Fin 5, Fin 7] ! 1) ([Fin 5, Fin 7] ! (1 - 1)))
             = Fin 2"
    by (simp add: fsub_def)
  have "pnl_series [1, 1] [Fin 5, Fin 7] ! 1 =
          fmul (Fin (of_int ([1, 1] ! (1 - 1)))) (fsub ([Fin 5, Fin 7] ! 1) ([Fin 5, Fin 7] ! (1 - 1)))"
    using pnl_lagged_first_missing [OF h1 h2] by simp
  then have "pnl_series [1, 1] [Fin 5, Fin 7] ! 1 = Fin 2" by (simp only: v)
  moreover have "pnl_series [1, 1] [Fin 5, Fin 7] ! 0 = NaN"
    using pnl_lagged_first_missing [OF h1 h2] by blast
  ultimately show ?thesis using h1 h2 by blast
qed

text \<open>
  The claim as stated fails in the first row: for the positions 1, 1 and the spreads
  5, 7 the column \<^verbatim>\<open>pnl\<close> is NaN, 2, so \<^verbatim>\<open>pnl[0]\<close> is not 0.
\<close>

theorem pnl_first_not_zero_counterexample:
  "pnl_series [1, 1] [Fin 5, Fin 7] = [NaN, Fin 2] \<and>
   pnl_series [1, 1] [Fin 5, Fin 7] ! 0 \<noteq> Fin 0"
  by (simp add: pnl_series_def pd_shift1_def pd_diff_def fsub_def)

text \<open>
  Claim C10, as amended. For every integer position column and every spread column of
  finite numbers, of the same length \<open>N \<ge> 1\<close>, in exact arithmetic (no rounding, no
  overflow), and every row \<open>t < N\<close>: \<^verbatim>\<open>cum_pnl[t]\<close> is the sum of the rows 0 to \<open>t\<close>
  of \<^verbatim>\<open>pnl\<close> as \<^verbatim>\<open>Series.sum\<close> computes it, the missing first row counting as 0; that
  is the sum over \<open>k = 1, \<dots>, t\<close> of \<^verbatim>\<open>position[k-1] * (spread[k] - spread[k-1])\<close>; and
  the last row of \<^verbatim>\<open>cum_pnl\<close> is that sum of the whole column \<^verbatim>\<open>pnl\<close>.
\<close>

theorem cum_pnl_running_sum:
  assumes "length position = length xs" and "1 \<le> length xs" and "t < length xs"
  shows "cum_pnl_series position (map Fin xs) ! t =
           pd_sum (take (Suc t) (pnl_series position (map Fin xs))) \<and>
         cum_pnl_series position (map Fin xs) ! t = Fin (\<Sum>k = 1..t. spec_pnl position xs k) \<and>
         cum_pnl_series position (map Fin xs) ! (length xs - 1) =
           pd_sum (pnl_series position (map Fin xs))"
proof -
  define rs where "rs = map (\<lambda>t. spec_pnl position xs (Suc t)) [0..<length xs - 1]"
  have ne: "xs \<noteq> []" using assms(2) by auto
  have lrs: "length rs = length xs - 1" by (simp add: rs_def)
  have shape: "pnl_series position (map Fin xs) = NaN # map Fin rs"
    using pnl_series_finite [OF assms(1) ne] by (simp add: rs_def o_def)
  have cum: "cum_pnl_series position (map Fin xs) = Fin 0 # map Fin (cumsum_real 0 rs)"
    by (simp only: cum_pnl_series_def shape pd_cumsum_pnl_shape)
  have run: "cum_pnl_series position (map Fin xs) ! u = Fin (sum_list (take u rs))"
    if "u < length xs" for u
  proof (cases u)
    case 0
    then show ?thesis by (simp add: cum)
  next
    case (Suc j)
    then have "j < length rs" using that lrs by simp
    then show ?thesis by (simp add: cum Suc length_cumsum_real cumsum_real_nth)
  qed
  have tk: "pd_sum (take (Suc u) (pnl_series position (map Fin xs))) = Fin (sum_list (take u rs))"
    for u
    by (simp add: shape take_map pd_sum_pnl_shape)
  have "take t rs = map (\<lambda>t. spec_pnl position xs (Suc t)) [0..<t]"
    using assms(3) by (simp add: rs_def take_map)
  then have sm: "sum_list (take t rs) = (\<Sum>k = 1..t. spec_pnl position xs k)"
    by (simp only: sum_list_shifted)
  have last: "length xs - 1 < length xs" using assms(2) by simp
  have "take (length xs - 1) rs = rs" using lrs by simp
  then have "cum_pnl_series position (map Fin xs) ! (length xs - 1) = Fin (sum_list rs)"
    using run [OF last] by simp
  moreover have "pd_sum (pnl_series position (map Fin xs)) = Fin (sum_list rs)"
    by (simp add: shape pd_sum_pnl_shape)
  ultimately show ?thesis using run [OF assms(3)] tk [of t] sm by simp
qed

theorem cum_pnl_running_sum_witness:
  "length [1, 1, 0 :: int] = length [5, 7, 4 :: real] \<and> 1 \<le> length [5, 7, 4 :: real] \<and>
   2 < length [5, 7, 4 :: real] \<and>
   cum_pnl_series [1, 1, 0] (map Fin [5, 7, 4]) ! 2 = Fin (- 1)"
proof -
  have h1: "length [1, 1, 0 :: int] = length [5, 7, 4 :: real]" by simp
  have h2: "1 \<le> length [5, 7, 4 :: real]" by simp
  have h3: "2 < length [5, 7, 4 :: real]" by simp
  have s: "(\<Sum>k = 1..2. spec_pnl [1, 1, 0] [5, 7, 4] k) = - 1"
    by (simp add: spec_pnl_def numeral_2_eq_2)
  have "cum_pnl_series [1, 1, 0] (map Fin [5, 7, 4]) ! 2 =
          Fin (\<Sum>k = 1..2. spec_pnl [1, 1, 0] [5, 7, 4] k)"
    using cum_pnl_running_sum [OF h1 h2 h3] by blast
  then have "cum_pnl_series [1, 1, 0] (map Fin [5, 7, 4]) ! 2 = Fin (- 1)"
    by (simp only: s)
  then show ?thesis using h1 h2 h3 by blast
qed

text \<open>
  The claim as stated fails when a spread is missing: for the positions 1, 1, 1, 1, 1 and
  the spreads 1, 2, NaN, 4, 7 the column \<^verbatim>\<open>pnl\<close> is NaN, 1, NaN, NaN, 3 and the column
  \<^verbatim>\<open>cum_pnl\<close> is 0, 1, 0, 0, 4. In row 2 the cumulative value is 0, while the rows 0
  to 2 of \<^verbatim>\<open>pnl\<close> add up to 1 when NaN is skipped and to NaN when it is not.
\<close>

theorem cum_pnl_missing_spread_counterexample:
  "pnl_series [1, 1, 1, 1, 1] [Fin 1, Fin 2, NaN, Fin 4, Fin 7] = [NaN, Fin 1, NaN, NaN, Fin 3] \<and>
   cum_pnl_series [1, 1, 1, 1, 1] [Fin 1, Fin 2, NaN, Fin 4, Fin 7] =
     [Fin 0, Fin 1, Fin 0, Fin 0, Fin 4] \<and>
   cum_pnl_series [1, 1, 1, 1, 1] [Fin 1, Fin 2, NaN, Fin 4, Fin 7] ! 2 = Fin 0 \<and>
   pd_sum (take 3 (pnl_series [1, 1, 1, 1, 1] [Fin 1, Fin 2, NaN, Fin 4, Fin 7])) = Fin 1 \<and>
   np_sum (take 3 (pnl_series [1, 1, 1, 1, 1] [Fin 1, Fin 2, NaN, Fin 4, Fin 7])) = NaN"
proof -
  have p: "pnl_series [1, 1, 1, 1, 1] [Fin 1, Fin 2, NaN, Fin 4, Fin 7] =
             [NaN, Fin 1, NaN, NaN, Fin 3]"
    by (simp add: pnl_series_def pd_shift1_def pd_diff_def fsub_def upt_rec)
  show ?thesis
    unfolding p cum_pnl_series_def
    by (simp add: pd_cumsum_def pd_sum_def np_sum_def fill0_def)
qed

section \<open>Spread and z-score\<close>

lemma notna_count_Fin: "notna_count (map Fin xs) = length xs"
  by (simp add: notna_count_def filter_map o_def)

lemma pd_sum_Fin: "pd_sum (map Fin xs) = Fin (sum_list xs)"
  by (simp add: pd_sum_def fill0_Fin np_sum_Fin)

lemma pd_mean_Fin: "xs \<noteq> [] \<Longrightarrow> pd_mean (map Fin xs) = Fin (mean_real xs)"
  by (simp add: pd_mean_def notna_count_Fin pd_sum_Fin mean_real_def)

lemma pd_var_Fin:
  assumes "2 \<le> length xs"
  shows "pd_var (map Fin xs) = Fin (var_real xs)"
proof -
  have ne: "xs \<noteq> []" using assms by auto
  have avg: "fdiv (pd_sum (map Fin xs)) (Fin (real (length xs))) = Fin (mean_real xs)"
    using ne by (simp add: pd_sum_Fin mean_real_def)
  have n1: "real (length xs - 1) \<noteq> 0" using assms by simp
  have "pd_var (map Fin xs) =
          fdiv (np_sum (map Fin (map (\<lambda>x. (mean_real xs - x) * (mean_real xs - x)) xs)))
            (Fin (real (length xs - 1)))"
    using assms unfolding pd_var_def Let_def notna_count_Fin avg by (simp add: fsub_def o_def)
  also have "\<dots> = Fin (var_real xs)"
    using n1 unfolding np_sum_Fin var_real_def by simp
  finally show ?thesis .
qed

lemma var_real_nonneg: "0 \<le> var_real xs"
  unfolding var_real_def by (intro divide_nonneg_nonneg sum_list_nonneg) auto

lemma pd_std_Fin: "2 \<le> length xs \<Longrightarrow> pd_std (map Fin xs) = Fin (sqrt (var_real xs))"
  using var_real_nonneg [of xs] by (simp add: pd_std_def pd_var_Fin)

lemma sum_list_div: "(\<Sum>x\<leftarrow>xs. f x / (s::real)) = (\<Sum>x\<leftarrow>xs. f x) / s"
  by (induction xs) (simp_all add: add_divide_distrib)

lemma sum_list_centered: "(\<Sum>x\<leftarrow>xs. x - (m::real)) = sum_list xs - real (length xs) * m"
  by (induction xs) (simp_all add: algebra_simps)

lemma zscore_Fin:
  assumes "2 \<le> length xs" "sqrt (var_real xs) \<noteq> 0"
  shows "zscore_series (map Fin xs) =
           map Fin (map (\<lambda>x. (x - mean_real xs) / sqrt (var_real xs)) xs)"
proof -
  have ne: "xs \<noteq> []" using assms(1) by auto
  show ?thesis
    unfolding zscore_series_def pd_mean_Fin [OF ne] pd_std_Fin [OF assms(1)]
    using assms(2) by (simp add: fsub_def)
qed

lemma mean_real_zscore:
  assumes "xs \<noteq> []"
  shows "mean_real (map (\<lambda>x. (x - mean_real xs) / s) xs) = 0"
proof -
  have "real (length xs) \<noteq> 0" using assms by simp
  then have "sum_list xs - real (length xs) * mean_real xs = 0"
    by (simp add: mean_real_def)
  then show ?thesis
    by (simp add: mean_real_def o_def sum_list_div sum_list_centered)
qed

lemma var_real_zscore:
  assumes "2 \<le> length xs" "var_real xs \<noteq> 0"
  shows "var_real (map (\<lambda>x. (x - mean_real xs) / sqrt (var_real xs)) xs) = 1"
proof -
  let ?m = "mean_real xs" and ?v = "var_real xs"
  let ?zs = "map (\<lambda>x. (x - ?m) / sqrt ?v) xs"
  have ne: "xs \<noteq> []" using assms(1) by auto
  have v: "0 < ?v" using var_real_nonneg [of xs] assms(2) by simp
  have sq: "sqrt ?v * sqrt ?v = ?v" using v by simp
  have m0: "mean_real ?zs = 0" using mean_real_zscore [OF ne] .
  have n1: "real (length xs - 1) \<noteq> 0" using assms(1) by simp
  have tm: "(0 - (x - ?m) / sqrt ?v) * (0 - (x - ?m) / sqrt ?v) = (?m - x) * (?m - x) / ?v"
    for x
  proof -
    have "(0 - (x - ?m) / sqrt ?v) * (0 - (x - ?m) / sqrt ?v) =
          (?m - x) * (?m - x) / (sqrt ?v * sqrt ?v)"
      by (simp add: algebra_simps)
    then show ?thesis by (simp only: sq)
  qed
  let ?S = "\<Sum>x\<leftarrow>xs. (?m - x) * (?m - x)"
  have "var_real ?zs =
          (\<Sum>z\<leftarrow>?zs. (mean_real ?zs - z) * (mean_real ?zs - z)) / real (length ?zs - 1)"
    by (fact var_real_def)
  also have "\<dots> = (\<Sum>x\<leftarrow>xs. (0 - (x - ?m) / sqrt ?v) * (0 - (x - ?m) / sqrt ?v)) /
                    real (length xs - 1)"
    by (simp only: m0 map_map o_def length_map)
  also have "\<dots> = (\<Sum>x\<leftarrow>xs. (?m - x) * (?m - x) / ?v) / real (length xs - 1)"
    by (simp only: tm)
  also have "\<dots> = ?S / ?v / real (length xs - 1)"
    by (simp only: sum_list_div)
  also have "\<dots> = ?S / real (length xs - 1) / ?v"
    by (simp add: divide_divide_eq_left mult.commute)
  also have "\<dots> = ?v / ?v"
    by (simp only: var_real_def [of xs, symmetric])
  also have "\<dots> = 1" using v by simp
  finally show ?thesis .
qed

text \<open>
  Claim C6. For every spread column of \<open>N \<ge> 2\<close> finite numbers whose unbiased sample
  standard deviation is not zero, the z-score column has sample mean exactly 0 and
  unbiased sample standard deviation exactly 1, in exact arithmetic.
\<close>

theorem zscore_mean_zero_std_one:
  assumes "2 \<le> length xs" and "pd_std (map Fin xs) \<noteq> Fin 0"
  shows "pd_mean (zscore_series (map Fin xs)) = Fin 0 \<and>
         pd_std (zscore_series (map Fin xs)) = Fin 1"
proof -
  let ?zs = "map (\<lambda>x. (x - mean_real xs) / sqrt (var_real xs)) xs"
  have s: "sqrt (var_real xs) \<noteq> 0" using assms by (simp add: pd_std_Fin)
  then have v: "var_real xs \<noteq> 0" by simp
  have ne: "xs \<noteq> []" using assms(1) by auto
  have z: "zscore_series (map Fin xs) = map Fin ?zs" using zscore_Fin [OF assms(1) s] .
  have len: "2 \<le> length ?zs" "?zs \<noteq> []" using assms(1) ne by simp_all
  have "pd_mean (map Fin ?zs) = Fin 0"
    unfolding pd_mean_Fin [OF len(2)] mean_real_zscore [OF ne] ..
  moreover have "pd_std (map Fin ?zs) = Fin 1"
    unfolding pd_std_Fin [OF len(1)] var_real_zscore [OF assms(1) v] by simp
  ultimately show ?thesis unfolding z by blast
qed

theorem zscore_mean_zero_std_one_witness:
  "2 \<le> length [0, 1, 2 :: real] \<and> pd_std (map Fin [0, 1, 2]) = Fin 1 \<and>
   zscore_series (map Fin [0, 1, 2]) = [Fin (- 1), Fin 0, Fin 1] \<and>
   pd_mean (zscore_series (map Fin [0, 1, 2])) = Fin 0 \<and>
   pd_std (zscore_series (map Fin [0, 1, 2])) = Fin 1"
proof -
  have h1: "2 \<le> length [0, 1, 2 :: real]" by simp
  have sd: "pd_std (map Fin [0, 1, 2]) = Fin 1"
    using pd_std_Fin [of "[0, 1, 2]"] by (simp add: var_real_def mean_real_def)
  then have h2: "pd_std (map Fin [0, 1, 2]) \<noteq> Fin 0" by simp
  have m: "pd_mean (map Fin [0, 1, 2]) = Fin 1"
    using pd_mean_Fin [of "[0, 1, 2]"] by (simp add: mean_real_def)
  have z: "zscore_series (map Fin [0, 1, 2]) = [Fin (- 1), Fin 0, Fin 1]"
    unfolding zscore_series_def sd m by (simp add: fsub_def)
  show ?thesis using zscore_mean_zero_std_one [OF h1 h2] h1 sd z by blast
qed

lemma spread_identical:
  "spread_series (Fin 1) (Fin (- 1)) (map Fin xs) (map Fin xs) = replicate (length xs) (Fin 0)"
  by (induction xs) (simp_all add: spread_series_def)

lemma zeros_Fin: "replicate n (Fin 0) = map Fin (replicate n 0)"
  by simp

lemma mean_real_zeros: "mean_real (replicate n 0) = 0"
  by (simp add: mean_real_def sum_list_replicate)

lemma var_real_zeros: "var_real (replicate n 0) = 0"
  by (simp add: var_real_def mean_real_zeros sum_list_replicate)

lemma pd_std_zeros:
  assumes "2 \<le> n"
  shows "pd_std (replicate n (Fin 0)) = Fin 0"
proof -
  have "pd_std (map Fin (replicate n 0)) = Fin (sqrt (var_real (replicate n 0)))"
    using assms by (intro pd_std_Fin) simp
  then show ?thesis by (simp only: zeros_Fin var_real_zeros real_sqrt_zero)
qed

lemma pd_std_short:
  assumes "n \<le> 1"
  shows "pd_std (replicate n (Fin 0)) = NaN"
proof -
  have "notna_count (map Fin (replicate n 0)) = n"
    by (simp only: notna_count_Fin length_replicate)
  then have "notna_count (replicate n (Fin 0)) \<le> 1"
    using assms by (simp only: zeros_Fin)
  then show ?thesis by (simp add: pd_std_def pd_var_def)
qed

lemma pd_mean_zeros:
  assumes "1 \<le> n"
  shows "pd_mean (replicate n (Fin 0)) = Fin 0"
proof -
  have "replicate n (0::real) \<noteq> []" using assms by auto
  then have "pd_mean (map Fin (replicate n 0)) = Fin (mean_real (replicate n 0))"
    by (rule pd_mean_Fin)
  then show ?thesis by (simp only: zeros_Fin mean_real_zeros)
qed

lemma fdiv_NaN: "fdiv x NaN = NaN"
  by (cases x) simp_all

lemma zscore_zeros: "zscore_series (replicate n (Fin 0)) = replicate n NaN"
proof (cases "2 \<le> n")
  case True
  then have m: "pd_mean (replicate n (Fin 0)) = Fin 0" by (intro pd_mean_zeros) simp
  show ?thesis
    unfolding zscore_series_def m pd_std_zeros [OF True]
    by (simp add: fsub_def inf_of_sign_def)
next
  case False
  then have sd: "pd_std (replicate n (Fin 0)) = NaN" by (intro pd_std_short) simp
  show ?thesis
    unfolding zscore_series_def sd by (simp add: fdiv_NaN)
qed

text \<open>
  Claim C7, as amended. With the weighting vector (1, -1) and twice the same column of
  finite prices, of any length \<open>N\<close>: the spread is 0 in every row; its standard deviation
  is 0 when \<open>N \<ge> 2\<close> and NaN when \<open>N \<le> 1\<close>; no error is raised and the z-score is
  NaN in every row.
\<close>

theorem identical_series_degenerate:
  "spread_series (Fin 1) (Fin (- 1)) (map Fin xs) (map Fin xs) = replicate (length xs) (Fin 0) \<and>
   (2 \<le> length xs \<longrightarrow>
      pd_std (spread_series (Fin 1) (Fin (- 1)) (map Fin xs) (map Fin xs)) = Fin 0) \<and>
   (length xs \<le> 1 \<longrightarrow>
      pd_std (spread_series (Fin 1) (Fin (- 1)) (map Fin xs) (map Fin xs)) = NaN) \<and>
   zscore_series (spread_series (Fin 1) (Fin (- 1)) (map Fin xs) (map Fin xs)) =
     replicate (length xs) NaN"
  by (simp add: spread_identical pd_std_zeros pd_std_short zscore_zeros)

theorem identical_series_degenerate_witness:
  "2 \<le> length [3, 4 :: real] \<and>
   spread_series (Fin 1) (Fin (- 1)) (map Fin [3, 4]) (map Fin [3, 4]) = [Fin 0, Fin 0] \<and>
   pd_std (spread_series (Fin 1) (Fin (- 1)) (map Fin [3, 4]) (map Fin [3, 4])) = Fin 0 \<and>
   zscore_series (spread_series (Fin 1) (Fin (- 1)) (map Fin [3, 4]) (map Fin [3, 4])) =
     [NaN, NaN]"
proof -
  have h: "2 \<le> length [3, 4 :: real]" by simp
  have r: "replicate (length [3, 4 :: real]) x = [x, x]" for x :: fl
    by (simp add: numeral_2_eq_2)
  show ?thesis
    using identical_series_degenerate [of "[3, 4]"] h unfolding r by blast
qed

text \<open>
  The claim as stated fails for a single row: the spread of the price 3 against itself
  is 0, and the standard deviation of that one-row column is NaN, not 0.
\<close>

theorem single_row_std_not_zero_counterexample:
  "spread_series (Fin 1) (Fin (- 1)) [Fin 3] [Fin 3] = [Fin 0] \<and>
   pd_std (spread_series (Fin 1) (Fin (- 1)) [Fin 3] [Fin 3]) = NaN \<and>
   pd_std (spread_series (Fin 1) (Fin (- 1)) [Fin 3] [Fin 3]) \<noteq> Fin 0"
  by (simp add: spread_series_def pd_std_def pd_var_def notna_count_def)

section \<open>The synthetic price series\<close>

lemma cell_generate_negative:
  "n < 0 \<Longrightarrow> cell_generate gauss n offset beta scale1 scale2 g = Inl ValueError"
  by (simp add: cell_generate_def random_normal_def)

lemma cell_generate_zero:
  "0 \<le> scale1 \<Longrightarrow> 0 \<le> scale2 \<Longrightarrow>
   cell_generate gauss 0 offset beta scale1 scale2 g = Inr (([], []), g)"
  by (simp add: cell_generate_def random_normal_def)

text \<open>
  Claim C8, as amended. The cells check nothing themselves. For every negative length,
  with any seed and parameters, the run ends in a \<^verbatim>\<open>ValueError\<close> of numpy (for the
  negative sample size, if not already for the seed) and returns no series; for the
  length 0, with a seed and scales that numpy accepts, it returns two empty series.
\<close>

theorem generator_nonpositive_length:
  "(n < 0 \<longrightarrow>
      series_generator seeded gauss seed n offset beta scale1 scale2 g = Inl ValueError) \<and>
   (0 \<le> scale1 \<and> 0 \<le> scale2 \<longrightarrow>
      series_generator seeded gauss seed 0 offset beta scale1 scale2 g =
        (if 0 \<le> seed \<and> seed < 2 ^ 32 then Inr (([], []), seeded (nat seed))
         else Inl ValueError))"
  by (auto simp: series_generator_def cell_seed_def cell_generate_negative cell_generate_zero)

theorem generator_nonpositive_length_witness:
  "series_generator counter_seeded counter_gauss 42 (- 1) 100 (4 / 5) 1 2 7 = Inl ValueError \<and>
   series_generator counter_seeded counter_gauss 42 0 100 (4 / 5) 1 2 7 =
     Inr (([], []), counter_seeded 42)"
  using generator_nonpositive_length [of "- 1" counter_seeded counter_gauss 42 100 "4 / 5" 1 2 7]
  by simp

text \<open>
  The claim as stated fails for the length 0: the run returns two empty series and
  raises nothing.
\<close>

theorem generator_zero_length_counterexample:
  "series_generator counter_seeded counter_gauss 42 0 100 (4 / 5) 1 2 7 =
     Inr (([], []), 42) \<and>
   series_generator counter_seeded counter_gauss 42 0 100 (4 / 5) 1 2 7 \<noteq> Inl ValueError"
  by (simp add: series_generator_def cell_seed_def cell_generate_def random_normal_def
      counter_seeded_def)

end
